theory Spec2Isabelle
  imports Complex_Main
begin

section \<open>Data model\<close>

text \<open>
  JavaScript numbers are modelled as reals: every time value, pixel coordinate and
  duration is a finite number and arithmetic is exact. \<open>NaN\<close> and the infinities
  (a video without metadata, a live stream, a division by a zero width) are outside
  the model; where the source can produce them the theorems carry the hypothesis
  that excludes them.
\<close>

text \<open>The fields of \<open>HTMLVideoElement\<close> that the components read and write.\<close>

record video_element =
  duration :: real
  currentTime :: real
  paused :: bool
  muted :: bool
  readyState :: nat

text \<open>\<open>getBoundingClientRect()\<close> of the timeline: only \<open>left\<close> and \<open>width\<close> are used.\<close>

record dom_rect =
  left :: real
  width :: real

record mouse_event =
  clientX :: real

record key_event =
  key :: string
  code :: string
  shiftKey :: bool

text \<open>The union type \<open>'start' | 'end' | 'frame'\<close> of \<open>draggingHandle\<close>.\<close>

datatype handle = HStart | HEnd | HFrame

text \<open>
  The state of the \<open>VideoPlayer\<close> component (handle-drag version): its \<open>useState\<close>
  cells, the two refs, and the cells \<open>clipStartTime\<close>/\<open>clipEndTime\<close> of \<open>App\<close>
  that the \<open>onClipSelected\<close> prop writes.
\<close>

record player =
  videoRef :: "video_element option"
  timelineRef :: "dom_rect option"
  videoDuration :: real
  isPlaying :: bool
  selectionStart :: real
  selectionEnd :: real
  isDragging :: bool
  dragStartX :: real
  draggingHandle :: "handle option"
  clipStartTime :: real
  clipEndTime :: real

section \<open>App: the session's clip cells\<close>

text \<open>\<open>handleClipSelected\<close> in \<open>App\<close>, passed to the player as \<open>onClipSelected\<close>.\<close>

definition handleClipSelected :: "real \<Rightarrow> real \<Rightarrow> player \<Rightarrow> player" where
  "handleClipSelected startTime endTime s =
     s\<lparr>clipStartTime := startTime, clipEndTime := endTime\<rparr>"

text \<open>
  \<open>handleVideoSelected\<close> in \<open>App\<close> mounts a fresh player: the \<open>useState\<close> defaults
  of \<open>VideoPlayer\<close>, and the clip cells reset to \<open>0\<close> and \<open>90\<close>.
\<close>

definition handleVideoSelected :: "video_element option \<Rightarrow> dom_rect option \<Rightarrow> player" where
  "handleVideoSelected v rect =
     \<lparr>videoRef = v, timelineRef = rect, videoDuration = 0, isPlaying = False,
      selectionStart = 0, selectionEnd = 90, isDragging = False, dragStartX = 0,
      draggingHandle = None, clipStartTime = 0, clipEndTime = 90\<rparr>"

section \<open>VideoPlayer: handlers\<close>

text \<open>\<open>if (videoRef.current) videoRef.current.currentTime = t\<close>\<close>

definition seekVideo :: "real \<Rightarrow> player \<Rightarrow> player" where
  "seekVideo t s = s\<lparr>videoRef := map_option (\<lambda>v. v\<lparr>currentTime := t\<rparr>) (videoRef s)\<rparr>"

definition handleMetadataLoaded :: "player \<Rightarrow> player" where
  "handleMetadataLoaded s =
     (case videoRef s of
        None \<Rightarrow> s
      | Some v \<Rightarrow>
          (let d = duration v;
               defaultEnd = min 90 d
           in handleClipSelected 0 defaultEnd
                (s\<lparr>videoDuration := d, selectionEnd := defaultEnd\<rparr>)))"

definition togglePlayPause :: "player \<Rightarrow> player" where
  "togglePlayPause s =
     (case videoRef s of
        None \<Rightarrow> s
      | Some v \<Rightarrow>
          s\<lparr>videoRef := Some (v\<lparr>paused := isPlaying s\<rparr>), isPlaying := \<not> isPlaying s\<rparr>)"

definition handleHandleDragStart :: "mouse_event \<Rightarrow> handle \<Rightarrow> player \<Rightarrow> player" where
  "handleHandleDragStart e h s =
     s\<lparr>isDragging := True, dragStartX := clientX e, draggingHandle := Some h\<rparr>"

text \<open>
  The pointer position as a time:
  \<open>Math.max(0, Math.min(videoDuration, (mouseX / timelineWidth) * videoDuration))\<close>.
\<close>

definition pointerTime :: "dom_rect \<Rightarrow> real \<Rightarrow> mouse_event \<Rightarrow> real" where
  "pointerTime timelineRect vd e =
     (let timelineWidth = width timelineRect;
          mouseX = clientX e - left timelineRect
      in max 0 (min vd ((mouseX / timelineWidth) * vd)))"

definition handleHandleDrag :: "mouse_event \<Rightarrow> player \<Rightarrow> player" where
  "handleHandleDrag e s =
     (case (timelineRef s, draggingHandle s) of
        (Some timelineRect, Some h) \<Rightarrow>
          if \<not> isDragging s then s
          else
            (let timelineWidth = width timelineRect;
                 time = pointerTime timelineRect (videoDuration s) e;
                 newStart = selectionStart s;
                 newEnd = selectionEnd s
             in case h of
                  HStart \<Rightarrow>
                    (let newStart = min time (selectionEnd s - 1);
                         newStart = (if newEnd - newStart > 90 then newEnd - 90 else newStart)
                     in seekVideo newStart
                          (handleClipSelected newStart newEnd (s\<lparr>selectionStart := newStart\<rparr>)))
                | HEnd \<Rightarrow>
                    (let newEnd = max time (selectionStart s + 1);
                         newEnd = (if newEnd - newStart > 90 then newStart + 90 else newEnd)
                     in seekVideo newEnd
                          (handleClipSelected newStart newEnd (s\<lparr>selectionEnd := newEnd\<rparr>)))
                | HFrame \<Rightarrow>
                    (let frameWidth = selectionEnd s - selectionStart s;
                         newFrameStart =
                           time - (dragStartX s - left timelineRect) / timelineWidth * videoDuration s;
                         newFrameStart = max 0 (min (videoDuration s - frameWidth) newFrameStart)
                     in seekVideo newFrameStart
                          (handleClipSelected newFrameStart (newFrameStart + frameWidth)
                             (s\<lparr>selectionStart := newFrameStart,
                                selectionEnd := newFrameStart + frameWidth\<rparr>))))
      | _ \<Rightarrow> s)"

definition handleDragEnd :: "player \<Rightarrow> player" where
  "handleDragEnd s = s\<lparr>isDragging := False, draggingHandle := None\<rparr>"

text \<open>
  The \<open>keydown\<close> listener. \<open>nudgeAmount\<close> stays \<open>0\<close> for every key that is neither
  an arrow nor \<open>,\<close>/\<open>.\<close>, and then nothing happens.
\<close>

definition nudgeAmount :: "key_event \<Rightarrow> real" where
  "nudgeAmount e =
     (if key e = ''ArrowLeft'' \<or> key e = ''ArrowRight''
      then (if key e = ''ArrowLeft'' then - 1 else 1)
      else if key e = '','' \<or> key e = ''.''
      then (if key e = '','' then - 1 / 30 else 1 / 30)
      else 0)"

definition handleKeyDown :: "key_event \<Rightarrow> player \<Rightarrow> player" where
  "handleKeyDown e s =
     (if videoDuration s = 0 then s
      else if key e = '' '' \<or> code e = ''Space'' then togglePlayPause s
      else
        (let n = nudgeAmount e
         in if n \<noteq> 0 then
              (if shiftKey e then
                 (let newEnd = max (selectionStart s + 1 / 30) (min (videoDuration s) (selectionEnd s + n));
                      newEnd = (if newEnd - selectionStart s > 90 then selectionStart s + 90 else newEnd)
                  in seekVideo newEnd
                       (handleClipSelected (selectionStart s) newEnd (s\<lparr>selectionEnd := newEnd\<rparr>)))
               else
                 (let newStart = min (selectionEnd s - 1 / 30) (max 0 (selectionStart s + n));
                      newStart = (if selectionEnd s - newStart > 90 then selectionEnd s - 90 else newStart)
                  in seekVideo newStart
                       (handleClipSelected newStart (selectionEnd s) (s\<lparr>selectionStart := newStart\<rparr>))))
            else s))"

text \<open>
  The effect on \<open>[videoDuration]\<close>: \<open>Clamp selection to video duration and keep handles
  in sync\<close>. The four assignments run in the order of the source.
\<close>

definition clampSelection :: "player \<Rightarrow> player" where
  "clampSelection s =
     (if videoDuration s > 0 then
        (let newStart = selectionStart s;
             newEnd = selectionEnd s;
             newEnd = (if newEnd > videoDuration s then videoDuration s else newEnd);
             newStart = (if newStart > newEnd then newEnd else newStart);
             newStart = (if newEnd - newStart > 90 then newEnd - 90 else newStart);
             newStart = (if newStart < 0 then 0 else newStart)
         in handleClipSelected newStart newEnd
              (s\<lparr>selectionStart := newStart, selectionEnd := newEnd\<rparr>))
      else s)"

text \<open>
  The effect on \<open>[selectionEnd, videoDuration]\<close>: \<open>Prevent selectionEnd from ever
  exceeding videoDuration during drag/nudge\<close>. It reads the cells of the render it
  belongs to (the first argument) and writes into the pending state (the second).
\<close>

definition preventEndOverrun :: "player \<Rightarrow> player \<Rightarrow> player" where
  "preventEndOverrun r s =
     (if selectionEnd r > videoDuration r then
        (let s = s\<lparr>selectionEnd := videoDuration r\<rparr>
         in if selectionStart r > videoDuration r
            then s\<lparr>selectionStart := videoDuration r\<rparr> else s)
      else s)"

text \<open>
  Both effects run against the same render \<open>r\<close>, in the order of their declaration:
  on mount, and whenever \<open>videoDuration\<close> changed. When only \<open>selectionEnd\<close>
  changed, the second effect runs alone.
\<close>

definition runEffects :: "player \<Rightarrow> player" where
  "runEffects r = preventEndOverrun r (clampSelection r)"

definition commitEffects :: "player \<Rightarrow> player" where
  "commitEffects r = preventEndOverrun r r"

definition mountPlayer :: "video_element option \<Rightarrow> dom_rect option \<Rightarrow> player" where
  "mountPlayer v rect = runEffects (handleVideoSelected v rect)"

text \<open>The \<open>loadedmetadata\<close> event of the video element, then the render it causes.\<close>

definition metadataLoaded :: "player \<Rightarrow> player" where
  "metadataLoaded s = runEffects (handleMetadataLoaded s)"

text \<open>A new value of \<open>videoDuration\<close> alone (\<open>setVideoDuration\<close>) and its render.\<close>

definition durationChanged :: "real \<Rightarrow> player \<Rightarrow> player" where
  "durationChanged d s = runEffects (s\<lparr>videoDuration := d\<rparr>)"

text \<open>The mouse listeners of the timeline and the handles, each followed by its render.\<close>

datatype pointer_input =
    MouseDown mouse_event handle
  | MouseMove mouse_event
  | MouseUp
  | MouseLeave

fun pointer :: "pointer_input \<Rightarrow> player \<Rightarrow> player" where
  "pointer (MouseDown e h) s = commitEffects (handleHandleDragStart e h s)"
| "pointer (MouseMove e) s = commitEffects (handleHandleDrag e s)"
| "pointer MouseUp s = commitEffects (handleDragEnd s)"
| "pointer MouseLeave s = commitEffects (handleDragEnd s)"

definition keyDown :: "key_event \<Rightarrow> player \<Rightarrow> player" where
  "keyDown e s = commitEffects (handleKeyDown e s)"


text \<open>
  The bounds of a selection range, with the floor \<open>minSpan\<close> on its span as a
  parameter; the maximal span is the constant \<open>90\<close> of the source.
\<close>

definition rangeValid :: "real \<Rightarrow> player \<Rightarrow> bool" where
  "rangeValid minSpan s \<longleftrightarrow>
     0 \<le> selectionStart s \<and> selectionStart s \<le> selectionEnd s \<and>
     selectionEnd s \<le> videoDuration s \<and>
     selectionEnd s - selectionStart s \<le> 90 \<and>
     selectionEnd s - selectionStart s \<ge> minSpan"



text \<open>
  The \<open>loadedmetadata\<close> event of a video element whose duration is now \<open>d\<close>. The
  handler runs; the effect on \<open>[videoDuration]\<close> runs in the following render only
  when \<open>videoDuration\<close> has changed, the effect on \<open>[selectionEnd, videoDuration]\<close>
  in either case. Without a video element there is no such event.
\<close>

definition loadedMetadata :: "real \<Rightarrow> player \<Rightarrow> player" where
  "loadedMetadata d s =
     (case videoRef s of
        None \<Rightarrow> s
      | Some v \<Rightarrow>
          (let r = handleMetadataLoaded (s\<lparr>videoRef := Some (v\<lparr>duration := d\<rparr>)\<rparr>)
           in if videoDuration r \<noteq> videoDuration s then runEffects r else commitEffects r))"

text \<open>
  The mutations of the selection range, as inputs to the mounted player: the mouse
  listeners, the \<open>keydown\<close> listener, and the arrival of a duration.
\<close>

datatype input = Pointer pointer_input | Key key_event | Metadata real

fun applyInput :: "input \<Rightarrow> player \<Rightarrow> player" where
  "applyInput (Pointer p) s = pointer p s"
| "applyInput (Key k) s = keyDown k s"
| "applyInput (Metadata d) s = loadedMetadata d s"




section \<open>Thumbnail sampling\<close>

text \<open>
  \<open>generateThumbnails\<close> of the first \<open>VideoPlayer\<close> (overview thumbnails). A
  thumbnail is modelled by the offset the video was at when the frame was drawn.
  \<open>captureFrame\<close> seeks, and its \<open>onseeked\<close> handler draws, counts and either
  reports the list (\<open>onThumbnailsGenerated\<close>, here \<open>Some\<close>) or seeks on. The canvas
  and its context are taken to exist. Reading \<open>thumbnailPositions\<close> beyond its length
  gives \<open>undefined\<close>, which \<open>currentTime\<close> rejects: no list is reported then.
\<close>

definition numThumbnails :: nat where
  "numThumbnails = 5"

definition thumbnailPositions_player :: "real \<Rightarrow> real list" where
  "thumbnailPositions_player d =
     map (\<lambda>i. real i * (d / (real numThumbnails + 1))) [0..<numThumbnails]"

function captureFrame_player :: "real list \<Rightarrow> real list \<Rightarrow> nat \<Rightarrow> real \<Rightarrow> real list option" where
  "captureFrame_player positions thumbnails thumbnailsGenerated time =
     (if Suc thumbnailsGenerated = numThumbnails then Some (thumbnails @ [time])
      else if Suc thumbnailsGenerated < numThumbnails \<and> Suc thumbnailsGenerated < length positions
      then captureFrame_player positions (thumbnails @ [time]) (Suc thumbnailsGenerated)
             (positions ! Suc thumbnailsGenerated)
      else None)"
  by pat_completeness auto
termination
  by (relation "measure (\<lambda>(positions, thumbnails, n, time). numThumbnails - n)") auto

declare captureFrame_player.simps [simp del]

definition generateThumbnails_player :: "video_element option \<Rightarrow> real list option" where
  "generateThumbnails_player v =
     (case v of
        None \<Rightarrow> None
      | Some video \<Rightarrow>
          (let positions = thumbnailPositions_player (duration video)
           in captureFrame_player positions [] 0 (positions ! 0)))"

text \<open>
  After the report the handler resets \<open>video.currentTime\<close> to \<open>0\<close> and stays
  attached: the seek to \<open>0\<close> settles, one more frame is drawn and pushed onto the
  array that has been reported, and the count, now past \<open>numThumbnails\<close>, stops
  the chain. This is the array as it is left.
\<close>

definition thumbnailsArray_player :: "video_element option \<Rightarrow> real list option" where
  "thumbnailsArray_player v =
     map_option (\<lambda>thumbnails. thumbnails @ [0]) (generateThumbnails_player v)"

text \<open>
  \<open>generateThumbnails\<close> of \<open>App\<close> (thumbnails of the selected section). The result
  is the list handed to \<open>setThumbnails\<close>.
\<close>

definition thumbnailCount_app :: "real \<Rightarrow> real \<Rightarrow> int" where
  "thumbnailCount_app start end' = max 1 \<lfloor>(end' - start) / 10\<rfloor>"

definition thumbnailPositions_app :: "real \<Rightarrow> real \<Rightarrow> real list" where
  "thumbnailPositions_app start end' =
     (let clipDuration = end' - start;
          n = thumbnailCount_app start end'
      in map (\<lambda>i. start + ((real i + 0.5) * clipDuration) / real_of_int n) [0..<nat n])"

function captureFrame_app :: "real list \<Rightarrow> real list \<Rightarrow> nat \<Rightarrow> real \<Rightarrow> real list" where
  "captureFrame_app positions newThumbnails idx time =
     (if Suc idx < length positions
      then captureFrame_app positions (newThumbnails @ [time]) (Suc idx) (positions ! Suc idx)
      else newThumbnails @ [time])"
  by pat_completeness auto
termination
  by (relation "measure (\<lambda>(positions, newThumbnails, idx, time). length positions - idx)") auto

declare captureFrame_app.simps [simp del]

definition generateThumbnails_app :: "real \<Rightarrow> real \<Rightarrow> real list" where
  "generateThumbnails_app start end' =
     (let positions = thumbnailPositions_app start end'
      in if length positions > 0 then captureFrame_app positions [] 0 (positions ! 0) else [])"

section \<open>DownloadOptions: the capture job\<close>

text \<open>
  \<open>MediaRecorder.state\<close>; the recorder is never paused. A recorded chunk is
  modelled by its size in bytes, a \<open>Blob\<close> built from chunks by their list, and the
  object URL of a blob by the blob.
\<close>

datatype recorder_state = Inactive | Recording

text \<open>
  \<open>processVideo\<close> is an \<open>async\<close> function: between its \<open>await\<close>s the browser
  delivers other events. \<open>await_point\<close> records where the function is suspended.
\<close>

datatype await_point = NotSuspended | AwaitLoadedData | AwaitSeeked | AwaitPlay

record download =
  dlVideoRef :: "video_element option"
  processing :: bool
  processedVideoUrl :: "nat list option"
  processingProgress :: real
  recordedChunks :: "nat list"
  mediaRecorder :: "recorder_state option"
  progressInterval :: "int option"
  recordingTimeout :: "real option"
  suspended :: await_point
  alerts :: "string list"

text \<open>The component as mounted, around a hidden video element.\<close>

definition initialDownload :: "video_element option \<Rightarrow> download" where
  "initialDownload v =
     \<lparr>dlVideoRef = v, processing = False, processedVideoUrl = None, processingProgress = 0,
      recordedChunks = [], mediaRecorder = None, progressInterval = None,
      recordingTimeout = None, suspended = NotSuspended, alerts = []\<rparr>"

definition updateVideo :: "(video_element \<Rightarrow> video_element) \<Rightarrow> download \<Rightarrow> download" where
  "updateVideo f s = s\<lparr>dlVideoRef := map_option f (dlVideoRef s)\<rparr>"

text \<open>\<open>video.pause(); video.currentTime = videoStartTime; video.muted = false;\<close>\<close>

definition resetVideo :: "real \<Rightarrow> download \<Rightarrow> download" where
  "resetVideo videoStartTime s =
     updateVideo (\<lambda>v. v\<lparr>paused := True, currentTime := videoStartTime, muted := False\<rparr>) s"

text \<open>The \<open>catch\<close> block of \<open>processVideo\<close>.\<close>

definition processVideo_catch :: "download \<Rightarrow> download" where
  "processVideo_catch s =
     s\<lparr>processing := False, processingProgress := 0,
       alerts := alerts s @ [''Error processing video. Please try again.''],
       suspended := NotSuspended\<rparr>"

text \<open>\<open>Set the start time and mute the video\<close>, then wait for \<open>seeked\<close>.\<close>

definition processVideo_seek :: "real \<Rightarrow> download \<Rightarrow> download" where
  "processVideo_seek videoStartTime s =
     (updateVideo (\<lambda>v. v\<lparr>currentTime := videoStartTime, muted := True\<rparr>) s)
       \<lparr>suspended := AwaitSeeked\<rparr>"

text \<open>\<open>processVideo\<close> up to its first \<open>await\<close>.\<close>

definition processVideo :: "real \<Rightarrow> download \<Rightarrow> download" where
  "processVideo videoStartTime s =
     (case dlVideoRef s of
        None \<Rightarrow> s
      | Some video \<Rightarrow>
          (let s = s\<lparr>processing := True, processingProgress := 0, recordedChunks := []\<rparr>
           in if readyState video < 2 then s\<lparr>suspended := AwaitLoadedData\<rparr>
              else processVideo_seek videoStartTime s))"

text \<open>
  After \<open>seeked\<close>: \<open>supported\<close> is the answer of
  \<open>MediaRecorder.isTypeSupported('video/webm;codecs=vp8')\<close>. The recorder is created,
  its handlers are attached, and \<open>start(100)\<close> puts it into \<open>recording\<close>.
\<close>

definition processVideo_seeked :: "bool \<Rightarrow> download \<Rightarrow> download" where
  "processVideo_seeked supported s =
     (if \<not> supported then processVideo_catch s
      else s\<lparr>mediaRecorder := Some Recording, suspended := AwaitPlay\<rparr>)"

text \<open>
  After \<open>video.play()\<close> settled: on rejection the inner \<open>catch\<close> stops the recorder,
  unmutes and rethrows; otherwise \<open>now\<close> is \<open>Date.now()\<close>, the progress interval
  is set and the timeout is armed with \<open>duration * 1000\<close> milliseconds.
\<close>

definition processVideo_played :: "real \<Rightarrow> real \<Rightarrow> int option \<Rightarrow> download \<Rightarrow> download" where
  "processVideo_played videoStartTime videoEndTime played s =
     (case played of
        None \<Rightarrow>
          processVideo_catch
            (updateVideo (\<lambda>v. v\<lparr>muted := False\<rparr>) (s\<lparr>mediaRecorder := Some Inactive\<rparr>))
      | Some now \<Rightarrow>
          (let clipDuration = videoEndTime - videoStartTime
           in s\<lparr>progressInterval := Some now,
                recordingTimeout := Some (clipDuration * 1000),
                suspended := NotSuspended\<rparr>))"

definition ondataavailable :: "nat \<Rightarrow> download \<Rightarrow> download" where
  "ondataavailable size' s =
     (if size' > 0 then s\<lparr>recordedChunks := recordedChunks s @ [size']\<rparr> else s)"

definition onstop :: "real \<Rightarrow> download \<Rightarrow> download" where
  "onstop videoStartTime s =
     (if length (recordedChunks s) = 0 then
        s\<lparr>processing := False, processingProgress := 0,
          alerts := alerts s @ [''Error: No video data was recorded. Please try again.'']\<rparr>
      else
        resetVideo videoStartTime
          (s\<lparr>processedVideoUrl := Some (recordedChunks s), processing := False,
             processingProgress := 100\<rparr>))"

definition onerror :: "real \<Rightarrow> download \<Rightarrow> download" where
  "onerror videoStartTime s =
     (resetVideo videoStartTime (s\<lparr>processing := False, processingProgress := 0\<rparr>))
       \<lparr>alerts := alerts s @ [''Error recording video. Please try again.'']\<rparr>"

text \<open>The callback of \<open>progressInterval\<close>, at \<open>Date.now() = now\<close>.\<close>

definition progressTick :: "real \<Rightarrow> real \<Rightarrow> int \<Rightarrow> int \<Rightarrow> download \<Rightarrow> download" where
  "progressTick videoStartTime videoEndTime startTime now s =
     (let clipDuration = videoEndTime - videoStartTime;
          elapsed = real_of_int (now - startTime) / 1000;
          progress = min ((elapsed / clipDuration) * 100) 99
      in s\<lparr>processingProgress := progress\<rparr>)"

text \<open>The callback of \<open>recordingTimeout\<close>.\<close>

definition recordingTimeoutFired :: "real \<Rightarrow> download \<Rightarrow> download" where
  "recordingTimeoutFired videoStartTime s =
     (let s = s\<lparr>progressInterval := None\<rparr>
      in if mediaRecorder s = Some Recording
         then resetVideo videoStartTime (s\<lparr>mediaRecorder := Some Inactive\<rparr>)
         else s)"

text \<open>
  \<open>downloadVideo\<close>, the click handler of the button, which is disabled while
  \<open>processing\<close> or while the video is not ready (\<open>readyState >= 3\<close>). With a
  processed clip at hand it only downloads.
\<close>

definition isVideoReady :: "download \<Rightarrow> bool" where
  "isVideoReady s = (case dlVideoRef s of None \<Rightarrow> False | Some v \<Rightarrow> readyState v \<ge> 3)"

definition downloadVideo :: "real \<Rightarrow> download \<Rightarrow> download" where
  "downloadVideo videoStartTime s =
     (if processing s \<or> \<not> isVideoReady s then s
      else if processedVideoUrl s = None then processVideo videoStartTime s
      else s)"

text \<open>
  What the browser can deliver to the component. \<open>Seeked\<close> carries the codec
  answer read right after it, \<open>PlaySettled\<close> the clock at resolution (or \<open>None\<close>
  for a rejection), \<open>IntervalTick\<close> the clock, \<open>TimeUpdate\<close> the playback position
  the video has reached. The browser puts a recorder into \<open>inactive\<close> before it
  fires \<open>stop\<close> or \<open>error\<close>, and a resolved \<open>play()\<close> leaves the video playing.
  An event nobody listens to changes nothing. No listener of \<open>DownloadOptions\<close>
  reads the playback position.
\<close>

datatype event =
    Click
  | LoadedData
  | Seeked bool
  | PlaySettled "int option"
  | DataAvailable nat
  | RecorderStop
  | RecorderError
  | IntervalTick int
  | TimeoutFired
  | TimeUpdate real

fun step :: "real \<Rightarrow> real \<Rightarrow> event \<Rightarrow> download \<Rightarrow> download" where
  "step st en Click s = downloadVideo st s"
| "step st en LoadedData s =
     (if suspended s = AwaitLoadedData then processVideo_seek st s else s)"
| "step st en (Seeked supported) s =
     (if suspended s = AwaitSeeked then processVideo_seeked supported s else s)"
| "step st en (PlaySettled played) s =
     (if suspended s = AwaitPlay
      then processVideo_played st en played
             (case played of None \<Rightarrow> s | Some now \<Rightarrow> updateVideo (\<lambda>v. v\<lparr>paused := False\<rparr>) s)
      else s)"
| "step st en (DataAvailable size') s =
     (if mediaRecorder s = None then s else ondataavailable size' s)"
| "step st en RecorderStop s =
     (if mediaRecorder s = None then s else onstop st (s\<lparr>mediaRecorder := Some Inactive\<rparr>))"
| "step st en RecorderError s =
     (if mediaRecorder s = None then s else onerror st (s\<lparr>mediaRecorder := Some Inactive\<rparr>))"
| "step st en (IntervalTick now) s =
     (case progressInterval s of None \<Rightarrow> s | Some startTime \<Rightarrow> progressTick st en startTime now s)"
| "step st en TimeoutFired s =
     (case recordingTimeout s of
        None \<Rightarrow> s
      | Some delay \<Rightarrow> recordingTimeoutFired st (s\<lparr>recordingTimeout := None\<rparr>))"
| "step st en (TimeUpdate t) s = updateVideo (\<lambda>v. v\<lparr>currentTime := t\<rparr>) s"

text \<open>A run of the component: the events in the order of their delivery.\<close>

definition run :: "real \<Rightarrow> real \<Rightarrow> event list \<Rightarrow> download \<Rightarrow> download" where
  "run st en evs s = fold (step st en) evs s"

text \<open>
  The job is done when \<open>onstop\<close> has published a clip: \<open>processing\<close> is off and
  \<open>processedVideoUrl\<close> is set. It has failed when \<open>processing\<close> is off, no clip is
  published and the user has been alerted.
\<close>

definition jobDone :: "download \<Rightarrow> bool" where
  "jobDone s \<longleftrightarrow> \<not> processing s \<and> processedVideoUrl s \<noteq> None"

definition jobFailed :: "download \<Rightarrow> bool" where
  "jobFailed s \<longleftrightarrow> \<not> processing s \<and> processedVideoUrl s = None \<and> alerts s \<noteq> []"

text \<open>
  Two properties of the states of a run. The first: the progress shown is at most
  \<open>99\<close>, or it is \<open>100\<close> and the job is done. The second: no chunk has been kept
  and no clip has been published.
\<close>

definition progressCapped :: "download \<Rightarrow> bool" where
  "progressCapped s \<longleftrightarrow>
     processingProgress s \<le> 99 \<or> (processingProgress s = 100 \<and> jobDone s)"

definition nothingRecorded :: "download \<Rightarrow> bool" where
  "nothingRecorded s \<longleftrightarrow> recordedChunks s = [] \<and> processedVideoUrl s = None"

section \<open>Sample inputs\<close>

text \<open>A loaded video of duration \<open>d\<close>, at rest at its beginning.\<close>

definition readyVideo :: "real \<Rightarrow> video_element" where
  "readyVideo d = \<lparr>duration = d, currentTime = 0, paused = True, muted = False, readyState = 4\<rparr>"

text \<open>
  A player over that video with the selection \<open>[a, b]\<close>, no drag in progress, and a
  timeline laid out \<open>1000\<close> pixels wide at the left edge of the page.
\<close>

definition playerAt :: "real \<Rightarrow> real \<Rightarrow> real \<Rightarrow> player" where
  "playerAt d a b =
     (handleVideoSelected (Some (readyVideo d)) (Some \<lparr>left = 0, width = 1000\<rparr>))
       \<lparr>videoDuration := d, selectionStart := a, selectionEnd := b\<rparr>"

section \<open>Properties of the selection range\<close>

subsection \<open>Auxiliary facts\<close>


















lemmas player_eval =
  pointer.simps keyDown_def commitEffects_def preventEndOverrun_def handleKeyDown_def
  nudgeAmount_def loadedMetadata_def handleMetadataLoaded_def runEffects_def clampSelection_def
  handleClipSelected_def seekVideo_def playerAt_def handleVideoSelected_def readyVideo_def
  handleHandleDragStart_def handleHandleDrag_def handleDragEnd_def pointerTime_def Let_def

lemma runEffects_clampSelection:
  "0 < videoDuration r \<Longrightarrow> runEffects r = clampSelection r"
  by (auto simp add: runEffects_def clampSelection_def preventEndOverrun_def Let_def
      handleClipSelected_def)

lemma playerAt_simps:
  "selectionStart (playerAt d a b) = a" "selectionEnd (playerAt d a b) = b"
  "videoDuration (playerAt d a b) = d" "timelineRef (playerAt d a b) = Some \<lparr>left = 0, width = 1000\<rparr>"
  "draggingHandle (playerAt d a b) = None" "isDragging (playerAt d a b) = False"
  "videoRef (playerAt d a b) = Some (readyVideo d)"
  by (simp_all add: playerAt_def handleVideoSelected_def)

subsection \<open>C1: the bounds of the range under the mutations\<close>




text \<open>
  The start branch of \<open>handleHandleDrag\<close> takes \<open>Math.min(time, selectionEnd - 1)\<close>
  and has no lower clamp, unlike the pointer time, the frame drag, the nudge and the
  re-clamp, which all clamp at \<open>0\<close>. Once the end lies below \<open>1\<close> s, a drag of the
  start handle sets a negative \<open>start\<close>: in the second sequence above,
  \<open>start = -29/30\<close>.
\<close>

lemma start_handle_drag_below_zero:
  "rangeValid 1 (playerAt 100 0 90) \<and>
   selectionStart
     (fold applyInput
        [Pointer (MouseDown \<lparr>clientX = 900\<rparr> HEnd), Pointer (MouseMove \<lparr>clientX = 10\<rparr>),
         Pointer MouseUp,
         Key \<lparr>key = ''ArrowLeft'', code = ''ArrowLeft'', shiftKey = True\<rparr>,
         Pointer (MouseDown \<lparr>clientX = 0\<rparr> HStart), Pointer (MouseMove \<lparr>clientX = 0\<rparr>)]
        (playerAt 100 0 90)) = - 29 / 30"
  by (simp add: rangeValid_def player_eval)

subsection \<open>C2: the order of the re-clamp\<close>

text \<open>
  C2, as stated, fails at its own example: with \<open>start = 10\<close>, \<open>end = 95\<close> and the
  new duration \<open>50\<close> the re-clamp does not yield \<open>end = 50, start = 0\<close>.
\<close>

theorem reclamp_example_counterexample:
  "\<not> (selectionEnd (durationChanged 50 (playerAt 100 10 95)) = 50 \<and>
      selectionStart (durationChanged 50 (playerAt 100 10 95)) = 0)"
  by (simp add: durationChanged_def runEffects_def clampSelection_def preventEndOverrun_def
      Let_def handleClipSelected_def playerAt_simps)

text \<open>
  C2, amended. For a new duration \<open>d > 0\<close> the re-clamp applies, in this order:
  \<open>end\<close> to at most \<open>d\<close>; \<open>start\<close> to at most \<open>end\<close>; the span to at most \<open>90\<close> by
  moving \<open>start\<close> forward; \<open>start\<close> to at least \<open>0\<close>. It never moves \<open>end\<close> forward
  (there is no step for a minimal span), it reports the result through
  \<open>onClipSelected\<close>, and the second effect of the same render changes nothing.
  For \<open>start = 10\<close>, \<open>end = 95\<close> and the new duration \<open>50\<close> the result is exactly
  \<open>end = 50\<close>, \<open>start = 10\<close>.
\<close>

theorem reclamp_fixed_order:
  assumes "0 < d"
  shows "selectionEnd (durationChanged d s) = min (selectionEnd s) d \<and>
     selectionStart (durationChanged d s) =
       max 0 (if min (selectionEnd s) d - min (selectionStart s) (min (selectionEnd s) d) > 90
              then min (selectionEnd s) d - 90
              else min (selectionStart s) (min (selectionEnd s) d)) \<and>
     clipStartTime (durationChanged d s) = selectionStart (durationChanged d s) \<and>
     clipEndTime (durationChanged d s) = selectionEnd (durationChanged d s) \<and>
     selectionEnd (durationChanged d s) \<le> selectionEnd s \<and>
     clampSelection (s\<lparr>videoDuration := d\<rparr>) = durationChanged d s \<and>
     selectionEnd (durationChanged 50 (playerAt 100 10 95)) = 50 \<and>
     selectionStart (durationChanged 50 (playerAt 100 10 95)) = 10"
proof -
  have eq: "durationChanged d s = clampSelection (s\<lparr>videoDuration := d\<rparr>)"
    using assms by (simp add: durationChanged_def runEffects_clampSelection)
  have ex: "selectionEnd (durationChanged 50 (playerAt 100 10 95)) = 50 \<and>
     selectionStart (durationChanged 50 (playerAt 100 10 95)) = 10"
    by (simp add: durationChanged_def runEffects_def clampSelection_def preventEndOverrun_def
        Let_def handleClipSelected_def playerAt_simps)
  have gen: "selectionEnd (clampSelection (s\<lparr>videoDuration := d\<rparr>)) = min (selectionEnd s) d \<and>
     selectionStart (clampSelection (s\<lparr>videoDuration := d\<rparr>)) =
       max 0 (if min (selectionEnd s) d - min (selectionStart s) (min (selectionEnd s) d) > 90
              then min (selectionEnd s) d - 90
              else min (selectionStart s) (min (selectionEnd s) d)) \<and>
     clipStartTime (clampSelection (s\<lparr>videoDuration := d\<rparr>)) =
       selectionStart (clampSelection (s\<lparr>videoDuration := d\<rparr>)) \<and>
     clipEndTime (clampSelection (s\<lparr>videoDuration := d\<rparr>)) =
       selectionEnd (clampSelection (s\<lparr>videoDuration := d\<rparr>))"
    using assms
    by (simp add: clampSelection_def Let_def handleClipSelected_def min_def max_def)
  show ?thesis using eq ex gen by simp
qed

text \<open>The amended C2 when the duration falls below the whole range \<open>[60, 90]\<close>.\<close>

theorem reclamp_fixed_order_witness:
  "(0::real) < 20 \<and> selectionEnd (durationChanged 20 (playerAt 100 60 90)) = 20 \<and>
   selectionStart (durationChanged 20 (playerAt 100 60 90)) = 20"
  using reclamp_fixed_order[of 20 "playerAt 100 60 90"]
  by (simp add: playerAt_simps)

subsection \<open>C5: the floor under the start handle\<close>

text \<open>
  C5, as stated, fails for the drag: the floor of the start-handle drag is not the
  frame interval. With \<open>end = 10\<close>, the pointer at \<open>9.99\<close> s is past
  \<open>end - 1/30\<close>, and the start lands on \<open>9\<close>, not on \<open>end - 1/30\<close>.
\<close>

theorem start_drag_floor_counterexample:
  "pointerTime \<lparr>left = 0, width = 1000\<rparr> 10 \<lparr>clientX = 999\<rparr> > 10 - 1 / 30 \<and>
   selectionEnd (playerAt 10 0 10) = 10 \<and>
   selectionStart
     (handleHandleDrag \<lparr>clientX = 999\<rparr>
        (handleHandleDragStart \<lparr>clientX = 0\<rparr> HStart (playerAt 10 0 10))) = 9 \<and>
   (9::real) \<noteq> 10 - 1 / 30"
  by (simp add: pointerTime_def handleHandleDrag_def handleHandleDragStart_def Let_def
      seekVideo_def handleClipSelected_def playerAt_simps)

text \<open>
  C5, amended. A start-handle drag never leaves \<open>start\<close> above \<open>end - 1\<close> (one second),
  and a pointer at or past \<open>end - 1\<close> yields \<open>start = end - 1\<close> exactly; the end
  stays where it was. The frame interval is the floor of the keyboard nudge of the
  start: it never leaves \<open>start\<close> above \<open>end - 1/30\<close>, and a nudge to or
  past \<open>end - 1/30\<close> yields \<open>start = end - 1/30\<close> exactly.
\<close>

theorem start_floor_exact:
  "(timelineRef s = Some r \<and> 0 < width r \<and> isDragging s \<and> draggingHandle s = Some HStart \<longrightarrow>
      selectionStart (handleHandleDrag e s) \<le> selectionEnd s - 1 \<and>
      selectionEnd (handleHandleDrag e s) = selectionEnd s \<and>
      (selectionEnd s - 1 \<le> pointerTime r (videoDuration s) e \<longrightarrow>
         selectionStart (handleHandleDrag e s) = selectionEnd s - 1)) \<and>
   (videoDuration s \<noteq> 0 \<and> key k \<noteq> '' '' \<and> code k \<noteq> ''Space'' \<and> nudgeAmount k \<noteq> 0 \<and>
    \<not> shiftKey k \<longrightarrow>
      selectionStart (handleKeyDown k s) \<le> selectionEnd s - 1 / 30 \<and>
      selectionEnd (handleKeyDown k s) = selectionEnd s \<and>
      (selectionEnd s - 1 / 30 \<le> max 0 (selectionStart s + nudgeAmount k) \<longrightarrow>
         selectionStart (handleKeyDown k s) = selectionEnd s - 1 / 30))"
  by (auto simp add: handleHandleDrag_def handleKeyDown_def Let_def seekVideo_def
      handleClipSelected_def min_def max_def)

text \<open>
  The amended C5 at \<open>end = 10\<close>: the pointer at \<open>9.99\<close> s, and a one-second
  nudge from \<open>9.5\<close> s.
\<close>

theorem start_floor_exact_witness:
  "selectionStart
     (handleHandleDrag \<lparr>clientX = 999\<rparr>
        (handleHandleDragStart \<lparr>clientX = 0\<rparr> HStart (playerAt 10 0 10))) = 10 - 1 \<and>
   selectionStart
     (handleKeyDown \<lparr>key = ''ArrowRight'', code = ''ArrowRight'', shiftKey = False\<rparr>
        (playerAt 10 (19 / 2) 10)) = 10 - 1 / 30"
proof -
  let ?s = "handleHandleDragStart \<lparr>clientX = 0\<rparr> HStart (playerAt 10 0 10)"
  let ?k = "\<lparr>key = ''ArrowRight'', code = ''ArrowRight'', shiftKey = False\<rparr>"
  have a: "timelineRef ?s = Some \<lparr>left = 0, width = 1000\<rparr>" "0 < width \<lparr>left = 0, width = 1000\<rparr>"
    "isDragging ?s" "draggingHandle ?s = Some HStart" "selectionEnd ?s = 10" "videoDuration ?s = 10"
    "selectionEnd ?s - 1 \<le> pointerTime \<lparr>left = 0, width = 1000\<rparr> (videoDuration ?s) \<lparr>clientX = 999\<rparr>"
    by (simp_all add: handleHandleDragStart_def playerAt_simps pointerTime_def)
  have b: "videoDuration (playerAt 10 (19 / 2) 10) \<noteq> 0" "key ?k \<noteq> '' ''" "code ?k \<noteq> ''Space''"
    "nudgeAmount ?k \<noteq> 0" "\<not> shiftKey ?k"
    "selectionEnd (playerAt 10 (19 / 2) 10) - 1 / 30
       \<le> max 0 (selectionStart (playerAt 10 (19 / 2) 10) + nudgeAmount ?k)"
    "selectionEnd (playerAt 10 (19 / 2) 10) = 10"
    by (simp_all add: playerAt_simps nudgeAmount_def)
  have 1: "selectionStart (handleHandleDrag \<lparr>clientX = 999\<rparr> ?s) = selectionEnd ?s - 1"
    using a(1-4,7) start_floor_exact[where s = ?s and r = "\<lparr>left = 0, width = 1000\<rparr>"
      and e = "\<lparr>clientX = 999\<rparr>"]
    by blast
  have 2: "selectionStart (handleKeyDown ?k (playerAt 10 (19 / 2) 10)) =
      selectionEnd (playerAt 10 (19 / 2) 10) - 1 / 30"
    using b(1-6) start_floor_exact[where s = "playerAt 10 (19 / 2) 10" and k = ?k]
    by blast
  from 1 2 a(5) b(7) show ?thesis by simp
qed

subsection \<open>C10: the range when the metadata load\<close>

text \<open>
  C10. On a freshly mounted player, \<open>handleMetadataLoaded\<close> leaves \<open>start = 0\<close> and
  sets \<open>end = min(90, duration)\<close>: the whole duration below \<open>90\<close> seconds and \<open>90\<close>
  otherwise. It reports \<open>(0, min(90, duration))\<close> through \<open>onClipSelected\<close>, and for
  a positive duration the effects of the following render change nothing.
\<close>

theorem metadata_initial_range:
  "selectionStart (handleMetadataLoaded (mountPlayer (Some v) rect)) = 0 \<and>
   selectionEnd (handleMetadataLoaded (mountPlayer (Some v) rect)) = min 90 (duration v) \<and>
   selectionEnd (handleMetadataLoaded (mountPlayer (Some v) rect)) =
     (if duration v < 90 then duration v else 90) \<and>
   videoDuration (handleMetadataLoaded (mountPlayer (Some v) rect)) = duration v \<and>
   clipStartTime (handleMetadataLoaded (mountPlayer (Some v) rect)) = 0 \<and>
   clipEndTime (handleMetadataLoaded (mountPlayer (Some v) rect)) = min 90 (duration v) \<and>
   (0 < duration v \<longrightarrow>
      metadataLoaded (mountPlayer (Some v) rect) =
        handleMetadataLoaded (mountPlayer (Some v) rect))"
  by (auto simp add: metadataLoaded_def handleMetadataLoaded_def mountPlayer_def runEffects_def
      clampSelection_def preventEndOverrun_def handleVideoSelected_def handleClipSelected_def
      Let_def min_def)

text \<open>C10 at a \<open>30\<close>-second video.\<close>

theorem metadata_initial_range_witness:
  "0 < duration (readyVideo 30) \<and>
   selectionStart (metadataLoaded (mountPlayer (Some (readyVideo 30)) None)) = 0 \<and>
   selectionEnd (metadataLoaded (mountPlayer (Some (readyVideo 30)) None)) = 30"
  using metadata_initial_range[of "readyVideo 30" None]
  by (simp add: readyVideo_def)

section \<open>Properties of the thumbnail sampling\<close>

subsection \<open>Auxiliary facts\<close>

lemma thumbnailPositions_player_eq:
  "thumbnailPositions_player d = [0, d / 6, 2 * (d / 6), 3 * (d / 6), 4 * (d / 6)]"
proof -
  have "[0..<5] = [0, 1, 2, 3, 4::nat]" by code_simp
  then show ?thesis by (simp add: thumbnailPositions_player_def numThumbnails_def)
qed

lemma captureFrame_player_drop:
  "n < numThumbnails \<Longrightarrow> length positions = numThumbnails \<Longrightarrow>
   captureFrame_player positions acc n (positions ! n) = Some (acc @ drop n positions)"
proof (induction "numThumbnails - n" arbitrary: n acc)
  case 0
  then show ?case by simp
next
  case (Suc k)
  show ?case
  proof (cases "Suc n = numThumbnails")
    case True
    with Suc.prems have "drop n positions = [positions ! n]"
      by (metis Cons_nth_drop_Suc drop_all order_refl)
    with True show ?thesis
      by (subst captureFrame_player.simps) simp
  next
    case False
    with Suc.prems have lt: "Suc n < numThumbnails" by simp
    from Suc.hyps(2) have "k = numThumbnails - Suc n" by simp
    from Suc.hyps(1)[OF this lt Suc.prems(2)]
    have "captureFrame_player positions (acc @ [positions ! n]) (Suc n) (positions ! Suc n) =
        Some ((acc @ [positions ! n]) @ drop (Suc n) positions)" .
    with False lt Suc.prems show ?thesis
      by (subst captureFrame_player.simps) (simp add: Cons_nth_drop_Suc)
  qed
qed

lemma generateThumbnails_player_eq:
  "generateThumbnails_player (Some v) = Some (thumbnailPositions_player (duration v))"
proof -
  have "length (thumbnailPositions_player (duration v)) = numThumbnails"
    by (simp add: thumbnailPositions_player_def)
  moreover have "0 < numThumbnails" by (simp add: numThumbnails_def)
  ultimately show ?thesis
    using captureFrame_player_drop[of 0 "thumbnailPositions_player (duration v)" "[]"]
    by (simp add: generateThumbnails_player_def Let_def)
qed

lemma thumbnailsArray_player_eq:
  "thumbnailsArray_player (Some v) = Some (thumbnailPositions_player (duration v) @ [0])"
  by (simp add: thumbnailsArray_player_def generateThumbnails_player_eq)

lemma captureFrame_app_drop:
  "idx < length positions \<Longrightarrow>
   captureFrame_app positions acc idx (positions ! idx) = acc @ drop idx positions"
proof (induction "length positions - idx" arbitrary: idx acc)
  case 0
  then show ?case by simp
next
  case (Suc k)
  show ?case
  proof (cases "Suc idx < length positions")
    case True
    from Suc.hyps(2) have "k = length positions - Suc idx" by simp
    from Suc.hyps(1)[OF this True]
    have "captureFrame_app positions (acc @ [positions ! idx]) (Suc idx) (positions ! Suc idx) =
        (acc @ [positions ! idx]) @ drop (Suc idx) positions" .
    with True Suc.prems show ?thesis
      by (subst captureFrame_app.simps) (simp add: Cons_nth_drop_Suc)
  next
    case False
    with Suc.prems have "drop idx positions = [positions ! idx]"
      by (metis Cons_nth_drop_Suc drop_all not_less)
    with False show ?thesis
      by (subst captureFrame_app.simps) simp
  qed
qed

lemma generateThumbnails_app_eq:
  "generateThumbnails_app start end' = thumbnailPositions_app start end'"
  by (simp add: generateThumbnails_app_def Let_def captureFrame_app_drop)

subsection \<open>C3: the offsets of the overview thumbnails\<close>

text \<open>
  C3 describes \<open>N = 5\<close> offsets \<open>i * D/(N+1)\<close> for \<open>i = 1..N\<close>, strictly inside
  \<open>(0, D)\<close>. The code divides by \<open>N + 1\<close> but counts \<open>i\<close> from \<open>0\<close> to \<open>N - 1\<close>:
  the frames are drawn at \<open>0, D/6, 2D/6, 3D/6, 4D/6\<close>, in this order. The first
  offset is the endpoint \<open>0\<close> and \<open>5D/6\<close> is never sampled; for \<open>D = 100\<close> the
  offsets are \<open>[0, 16.67, 33.33, 50, 66.67]\<close>.
\<close>

theorem overview_offsets_start_at_zero:
  "generateThumbnails_player (Some v) =
     Some [0, duration v / 6, 2 * (duration v / 6), 3 * (duration v / 6), 4 * (duration v / 6)] \<and>
   generateThumbnails_player (Some (readyVideo 100)) = Some [0, 50 / 3, 100 / 3, 50, 200 / 3]"
  by (simp add: generateThumbnails_player_eq thumbnailPositions_player_eq readyVideo_def)

subsection \<open>C4: the offsets of the range preview\<close>

text \<open>
  C4. For a selection \<open>[start, end)\<close> with \<open>span = end - start\<close> the frames handed
  to \<open>setThumbnails\<close> are \<open>count = max(1, floor(span/10))\<close> many, the \<open>i\<close>-th drawn at
  \<open>start + (i + 0.5) * span / count\<close> for \<open>i = 0..count-1\<close>; for \<open>start = 10\<close>,
  \<open>end = 40\<close> they are the three offsets \<open>[15, 25, 35]\<close>.
\<close>

theorem range_preview_offsets:
  "length (generateThumbnails_app start end') = nat (max 1 \<lfloor>(end' - start) / 10\<rfloor>) \<and>
   (\<forall>i < length (generateThumbnails_app start end').
      generateThumbnails_app start end' ! i =
        start + (real i + 0.5) * (end' - start) / real_of_int (max 1 \<lfloor>(end' - start) / 10\<rfloor>)) \<and>
   generateThumbnails_app 10 40 = [15, 25, 35]"
proof -
  have l: "length (generateThumbnails_app start end') = nat (max 1 \<lfloor>(end' - start) / 10\<rfloor>)"
    by (simp add: generateThumbnails_app_eq thumbnailPositions_app_def thumbnailCount_app_def Let_def)
  have n: "\<forall>i < length (generateThumbnails_app start end').
      generateThumbnails_app start end' ! i =
        start + (real i + 0.5) * (end' - start) / real_of_int (max 1 \<lfloor>(end' - start) / 10\<rfloor>)"
    by (simp add: generateThumbnails_app_eq thumbnailPositions_app_def thumbnailCount_app_def Let_def)
  have "[0..<3] = [0, 1, 2::nat]" by code_simp
  then have e: "generateThumbnails_app 10 40 = [15, 25, 35]"
    by (simp add: generateThumbnails_app_eq thumbnailPositions_app_def thumbnailCount_app_def Let_def)
  from l n e show ?thesis by blast
qed

text \<open>C4 at \<open>start = 10\<close>, \<open>end = 40\<close> and the index \<open>1\<close>.\<close>

theorem range_preview_offsets_witness:
  "(1::nat) < length (generateThumbnails_app 10 40) \<and> generateThumbnails_app 10 40 ! 1 = 25"
proof -
  note t = range_preview_offsets[of 10 40]
  from t have e: "generateThumbnails_app 10 40 = [15, 25, 35]" by (elim conjE)
  have l: "(1::nat) < length (generateThumbnails_app 10 40)"
    by (simp only: e) simp
  from t have "\<forall>i < length (generateThumbnails_app 10 40).
      generateThumbnails_app 10 40 ! i =
        10 + (real i + 0.5) * (40 - 10) / real_of_int (max 1 \<lfloor>(40 - 10) / 10 :: real\<rfloor>)"
    by (elim conjE)
  with l have "generateThumbnails_app 10 40 ! 1 =
      10 + (real 1 + 0.5) * (40 - 10) / real_of_int (max 1 \<lfloor>(40 - 10) / 10 :: real\<rfloor>)"
    by blast
  also have "\<dots> = 25" by simp
  finally show ?thesis using l by simp
qed

section \<open>Properties of the capture job\<close>

subsection \<open>Auxiliary facts\<close>

lemmas download_defs =
  downloadVideo_def processVideo_def processVideo_seek_def processVideo_seeked_def
  processVideo_played_def processVideo_catch_def ondataavailable_def onstop_def onerror_def
  progressTick_def recordingTimeoutFired_def resetVideo_def updateVideo_def isVideoReady_def

lemma step_progressCapped: "progressCapped s \<Longrightarrow> progressCapped (step st en ev s)"
  by (cases ev)
     (auto simp add: progressCapped_def jobDone_def download_defs Let_def split: option.splits)

lemma run_progressCapped: "progressCapped s \<Longrightarrow> progressCapped (run st en evs s)"
  unfolding run_def by (induction evs arbitrary: s) (simp_all add: step_progressCapped)

lemma initial_progressCapped: "progressCapped (initialDownload v)"
  by (simp add: progressCapped_def initialDownload_def)

lemma step_nothingRecorded:
  "nothingRecorded s \<Longrightarrow> (\<And>m. ev = DataAvailable m \<Longrightarrow> m = 0) \<Longrightarrow>
   nothingRecorded (step st en ev s)"
  by (cases ev)
     (auto simp add: nothingRecorded_def download_defs Let_def split: option.splits)

lemma run_nothingRecorded:
  "nothingRecorded s \<Longrightarrow> \<forall>n. DataAvailable n \<in> set evs \<longrightarrow> n = 0 \<Longrightarrow>
   nothingRecorded (run st en evs s)"
  unfolding run_def
proof (induction evs arbitrary: s)
  case Nil
  then show ?case by simp
next
  case (Cons ev evs)
  have "nothingRecorded (step st en ev s)"
    using Cons.prems by (intro step_nothingRecorded) auto
  with Cons show ?case by simp
qed

lemma step_url_nonempty:
  "processedVideoUrl s \<noteq> Some [] \<Longrightarrow> processedVideoUrl (step st en ev s) \<noteq> Some []"
  by (cases ev)
     (auto simp add: download_defs Let_def split: option.splits)

lemma run_url_nonempty:
  "processedVideoUrl s \<noteq> Some [] \<Longrightarrow> processedVideoUrl (run st en evs s) \<noteq> Some []"
  unfolding run_def by (induction evs arbitrary: s) (simp_all add: step_url_nonempty)

lemmas run_eval = run_def initialDownload_def readyVideo_def download_defs Let_def

subsection \<open>C6: a capture without chunks\<close>

text \<open>
  C6. When the recorder stops and no chunk has been kept, the job fails: \<open>processing\<close>
  is switched off, the progress is reset to \<open>0\<close>, the user is told that no video
  data was recorded, and no clip is published; the job is not done. In any run of
  the component in which every chunk delivered is empty, no clip is ever published;
  and no run at all publishes a clip without chunks.
\<close>

theorem empty_capture_fails:
  "(recordedChunks s = [] \<and> mediaRecorder s \<noteq> None \<and> processedVideoUrl s = None \<longrightarrow>
      jobFailed (step st en RecorderStop s) \<and> \<not> jobDone (step st en RecorderStop s) \<and>
      processedVideoUrl (step st en RecorderStop s) = None \<and>
      processingProgress (step st en RecorderStop s) = 0 \<and>
      alerts (step st en RecorderStop s) =
        alerts s @ [''Error: No video data was recorded. Please try again.'']) \<and>
   ((\<forall>n. DataAvailable n \<in> set evs \<longrightarrow> n = 0) \<longrightarrow>
      \<not> jobDone (run st en evs (initialDownload v)) \<and>
      processedVideoUrl (run st en evs (initialDownload v)) = None) \<and>
   processedVideoUrl (run st en evs' (initialDownload v)) \<noteq> Some []"
proof -
  have a: "recordedChunks s = [] \<and> mediaRecorder s \<noteq> None \<and> processedVideoUrl s = None \<longrightarrow>
      jobFailed (step st en RecorderStop s) \<and> \<not> jobDone (step st en RecorderStop s) \<and>
      processedVideoUrl (step st en RecorderStop s) = None \<and>
      processingProgress (step st en RecorderStop s) = 0 \<and>
      alerts (step st en RecorderStop s) =
        alerts s @ [''Error: No video data was recorded. Please try again.'']"
    by (simp add: jobFailed_def jobDone_def onstop_def)
  have i: "nothingRecorded (initialDownload v)"
    by (simp add: nothingRecorded_def initialDownload_def)
  have b: "(\<forall>n. DataAvailable n \<in> set evs \<longrightarrow> n = 0) \<longrightarrow>
      \<not> jobDone (run st en evs (initialDownload v)) \<and>
      processedVideoUrl (run st en evs (initialDownload v)) = None"
    using run_nothingRecorded[OF i, of evs st en]
    by (simp add: nothingRecorded_def jobDone_def)
  have c: "processedVideoUrl (run st en evs' (initialDownload v)) \<noteq> Some []"
    by (rule run_url_nonempty) (simp add: initialDownload_def)
  from a b c show ?thesis by blast
qed

text \<open>
  C6 on a job over \<open>[10, 40)\<close> whose only chunk is empty and whose recorder is
  stopped by the timeout.
\<close>

theorem empty_capture_fails_witness:
  "jobFailed
     (run 10 40 [Click, Seeked True, PlaySettled (Some 0), DataAvailable 0, TimeoutFired, RecorderStop]
        (initialDownload (Some (readyVideo 100)))) \<and>
   processedVideoUrl
     (run 10 40 [Click, Seeked True, PlaySettled (Some 0), DataAvailable 0, TimeoutFired, RecorderStop]
        (initialDownload (Some (readyVideo 100)))) = None"
proof -
  let ?evs = "[Click, Seeked True, PlaySettled (Some 0), DataAvailable 0, TimeoutFired]"
  let ?s = "run 10 40 ?evs (initialDownload (Some (readyVideo 100)))"
  have h: "recordedChunks ?s = []" "mediaRecorder ?s \<noteq> None" "processedVideoUrl ?s = None"
    by (simp_all add: run_eval)
  have r: "run 10 40 (?evs @ [RecorderStop]) (initialDownload (Some (readyVideo 100))) =
      step 10 40 RecorderStop ?s"
    by (simp only: run_def fold_append fold_simps comp_apply id_apply)
  have z: "\<forall>n. DataAvailable n \<in> set (?evs @ [RecorderStop]) \<longrightarrow> n = 0" by simp
  from h empty_capture_fails[of ?s 10 40 "?evs @ [RecorderStop]" "Some (readyVideo 100)" "[]"] z
  have "jobFailed (step 10 40 RecorderStop ?s)"
    "processedVideoUrl (run 10 40 (?evs @ [RecorderStop]) (initialDownload (Some (readyVideo 100)))) = None"
    by blast+
  with r show ?thesis by simp
qed

subsection \<open>C7: the progress shown\<close>

text \<open>
  C7. For a range of positive span, every tick of the progress interval sets the
  progress to \<open>min(99, 100 * elapsed / (end - start))\<close>, where \<open>elapsed\<close> is the
  wall-clock time in seconds since playback started. In every run of the component
  the progress is at most \<open>99\<close> while the job is processing, and it is \<open>100\<close>
  only when the job is done.
\<close>

theorem progress_capped:
  assumes "st < en"
  shows "(progressInterval s = Some t0 \<longrightarrow>
      processingProgress (step st en (IntervalTick now) s) =
        min 99 (100 * (real_of_int (now - t0) / 1000) / (en - st)) \<and>
      processingProgress (step st en (IntervalTick now) s) \<le> 99) \<and>
   (processing (run st en evs (initialDownload v)) \<longrightarrow>
      processingProgress (run st en evs (initialDownload v)) \<le> 99) \<and>
   (processingProgress (run st en evs (initialDownload v)) = 100 \<longrightarrow>
      jobDone (run st en evs (initialDownload v)))"
proof -
  have a: "progressInterval s = Some t0 \<longrightarrow>
      processingProgress (step st en (IntervalTick now) s) =
        min 99 (100 * (real_of_int (now - t0) / 1000) / (en - st)) \<and>
      processingProgress (step st en (IntervalTick now) s) \<le> 99"
    by (simp add: progressTick_def Let_def min.commute mult.commute)
  have "progressCapped (run st en evs (initialDownload v))"
    by (rule run_progressCapped) (rule initial_progressCapped)
  then have b: "(processing (run st en evs (initialDownload v)) \<longrightarrow>
      processingProgress (run st en evs (initialDownload v)) \<le> 99) \<and>
   (processingProgress (run st en evs (initialDownload v)) = 100 \<longrightarrow>
      jobDone (run st en evs (initialDownload v)))"
    by (auto simp add: progressCapped_def jobDone_def)
  from a b show ?thesis by blast
qed

text \<open>
  C7 on a job over \<open>[10, 40)\<close>: a tick after \<open>15\<close> seconds shows \<open>50\<close>, and the
  progress is \<open>100\<close> once the recorder has stopped with a chunk.
\<close>

theorem progress_capped_witness:
  "(10::real) < 40 \<and>
   processing
     (run 10 40 [Click, Seeked True, PlaySettled (Some 0), IntervalTick 15000]
        (initialDownload (Some (readyVideo 100)))) \<and>
   processingProgress
     (run 10 40 [Click, Seeked True, PlaySettled (Some 0), IntervalTick 15000]
        (initialDownload (Some (readyVideo 100)))) \<le> 99 \<and>
   processingProgress
     (run 10 40 [Click, Seeked True, PlaySettled (Some 0), DataAvailable 1000, TimeoutFired, RecorderStop]
        (initialDownload (Some (readyVideo 100)))) = 100 \<and>
   jobDone
     (run 10 40 [Click, Seeked True, PlaySettled (Some 0), DataAvailable 1000, TimeoutFired, RecorderStop]
        (initialDownload (Some (readyVideo 100)))) \<and>
   progressInterval
     (run 10 40 [Click, Seeked True, PlaySettled (Some 0)]
        (initialDownload (Some (readyVideo 100)))) = Some 0 \<and>
   processingProgress
     (step 10 40 (IntervalTick 15000)
        (run 10 40 [Click, Seeked True, PlaySettled (Some 0)]
           (initialDownload (Some (readyVideo 100))))) = 50"
proof -
  let ?i = "initialDownload (Some (readyVideo 100))"
  let ?a = "[Click, Seeked True, PlaySettled (Some 0), IntervalTick 15000]"
  let ?b = "[Click, Seeked True, PlaySettled (Some 0), DataAvailable 1000, TimeoutFired, RecorderStop]"
  let ?c = "run 10 40 [Click, Seeked True, PlaySettled (Some 0)] ?i"
  have lt: "(10::real) < 40" by simp
  have p: "processing (run 10 40 ?a ?i)" by (simp add: run_eval)
  have q: "processingProgress (run 10 40 ?b ?i) = 100" by (simp add: run_eval)
  have t: "progressInterval ?c = Some 0" by (simp add: run_eval)
  from p progress_capped[OF lt, of _ _ _ ?a "Some (readyVideo 100)"]
  have 1: "processingProgress (run 10 40 ?a ?i) \<le> 99" by blast
  from q progress_capped[OF lt, of _ _ _ ?b "Some (readyVideo 100)"]
  have 2: "jobDone (run 10 40 ?b ?i)" by blast
  from t progress_capped[OF lt, of ?c 0 15000]
  have "processingProgress (step 10 40 (IntervalTick 15000) ?c) =
      min 99 (100 * (real_of_int (15000 - 0) / 1000) / (40 - 10))" by blast
  also have "\<dots> = 50" by simp
  finally have 3: "processingProgress (step 10 40 (IntervalTick 15000) ?c) = 50" .
  from lt p q t 1 2 3 show ?thesis by blast
qed

subsection \<open>C8: what ends the recording\<close>

text \<open>
  C8, as stated, fails in its condition (b). On a job over \<open>[10, 40)\<close> the playback
  position reaches \<open>40\<close> before the timeout has fired: the recorder is still
  recording, the video is still playing and the job is still processing.
\<close>

theorem playback_position_counterexample:
  "mediaRecorder
     (run 10 40 [Click, Seeked True, PlaySettled (Some 0), DataAvailable 1000, TimeUpdate 40]
        (initialDownload (Some (readyVideo 100)))) = Some Recording \<and>
   map_option currentTime
     (dlVideoRef
        (run 10 40 [Click, Seeked True, PlaySettled (Some 0), DataAvailable 1000, TimeUpdate 40]
           (initialDownload (Some (readyVideo 100))))) = Some 40 \<and>
   map_option paused
     (dlVideoRef
        (run 10 40 [Click, Seeked True, PlaySettled (Some 0), DataAvailable 1000, TimeUpdate 40]
           (initialDownload (Some (readyVideo 100))))) = Some False \<and>
   processing
     (run 10 40 [Click, Seeked True, PlaySettled (Some 0), DataAvailable 1000, TimeUpdate 40]
        (initialDownload (Some (readyVideo 100))))"
  by (simp add: run_eval)

text \<open>
  C8, amended. The recording is ended by the wall-clock timeout alone: once playback
  has started, a timeout of \<open>(end - start) * 1000\<close> milliseconds is armed; when it
  fires on a recording recorder, the recorder is stopped, the progress interval is
  cleared, and the video is paused, moved back to \<open>start\<close> and unmuted. The playback
  position of the source is not observed: its updates change neither the recorder,
  nor the timers, nor the job, nor whether the video plays.
\<close>

theorem recording_ends_on_timeout:
  "(suspended s = AwaitPlay \<longrightarrow>
      recordingTimeout (step st en (PlaySettled (Some now)) s) = Some ((en - st) * 1000)) \<and>
   (recordingTimeout s \<noteq> None \<and> mediaRecorder s = Some Recording \<and> dlVideoRef s = Some v \<longrightarrow>
      mediaRecorder (step st en TimeoutFired s) = Some Inactive \<and>
      progressInterval (step st en TimeoutFired s) = None \<and>
      dlVideoRef (step st en TimeoutFired s) =
        Some (v\<lparr>paused := True, currentTime := st, muted := False\<rparr>)) \<and>
   mediaRecorder (step st en (TimeUpdate t) s) = mediaRecorder s \<and>
   recordingTimeout (step st en (TimeUpdate t) s) = recordingTimeout s \<and>
   progressInterval (step st en (TimeUpdate t) s) = progressInterval s \<and>
   processing (step st en (TimeUpdate t) s) = processing s \<and>
   map_option paused (dlVideoRef (step st en (TimeUpdate t) s)) = map_option paused (dlVideoRef s)"
  by (auto simp add: download_defs Let_def option.map_comp comp_def split: option.splits)

text \<open>The amended C8 on a job over \<open>[10, 40)\<close>: the timeout is armed with \<open>30000\<close> ms.\<close>

theorem recording_ends_on_timeout_witness:
  "suspended (run 10 40 [Click, Seeked True] (initialDownload (Some (readyVideo 100)))) = AwaitPlay \<and>
   recordingTimeout
     (step 10 40 (PlaySettled (Some 0))
        (run 10 40 [Click, Seeked True] (initialDownload (Some (readyVideo 100))))) = Some 30000 \<and>
   mediaRecorder
     (step 10 40 TimeoutFired
        (run 10 40 [Click, Seeked True, PlaySettled (Some 0), TimeUpdate 25]
           (initialDownload (Some (readyVideo 100))))) = Some Inactive"
proof -
  let ?i = "initialDownload (Some (readyVideo 100))"
  let ?a = "run 10 40 [Click, Seeked True] ?i"
  let ?b = "run 10 40 [Click, Seeked True, PlaySettled (Some 0), TimeUpdate 25] ?i"
  let ?v = "\<lparr>duration = 100, currentTime = 25, paused = False, muted = True, readyState = 4\<rparr>"
  have h: "suspended ?a = AwaitPlay" by (simp add: run_eval)
  have g: "recordingTimeout ?b \<noteq> None" "mediaRecorder ?b = Some Recording"
    "dlVideoRef ?b = Some ?v"
    by (simp_all add: run_eval)
  from h recording_ends_on_timeout[of ?a 10 40 0]
  have "recordingTimeout (step 10 40 (PlaySettled (Some 0)) ?a) = Some ((40 - 10) * 1000)"
    by blast
  then have 1: "recordingTimeout (step 10 40 (PlaySettled (Some 0)) ?a) = Some 30000" by simp
  from g recording_ends_on_timeout[of ?b 10 40 _ ?v]
  have 2: "mediaRecorder (step 10 40 TimeoutFired ?b) = Some Inactive" by blast
  from h 1 2 show ?thesis by blast
qed

subsection \<open>C9: the cleanup on failure\<close>

text \<open>
  C9 asks for the cleanup of the source (pause, back to \<open>start\<close>, unmute) on every
  failure path. The \<open>catch\<close> block of \<open>processVideo\<close> has none: when the browser
  does not support the codec, the job over \<open>[10, 40)\<close> ends with the alert and the
  video is left muted. The \<open>onerror\<close> handler of the recorder, by contrast, leaves
  the video paused, at \<open>start\<close> and unmuted.
\<close>

theorem unsupported_codec_leaves_video_muted:
  "\<not> processing (run 10 40 [Click, Seeked False] (initialDownload (Some (readyVideo 100)))) \<and>
   processedVideoUrl (run 10 40 [Click, Seeked False] (initialDownload (Some (readyVideo 100)))) = None \<and>
   alerts (run 10 40 [Click, Seeked False] (initialDownload (Some (readyVideo 100)))) =
     [''Error processing video. Please try again.''] \<and>
   dlVideoRef (run 10 40 [Click, Seeked False] (initialDownload (Some (readyVideo 100)))) =
     Some \<lparr>duration = 100, currentTime = 10, paused = True, muted = True, readyState = 4\<rparr> \<and>
   dlVideoRef (run 10 40 [Click, Seeked True, PlaySettled (Some 0), RecorderError]
                 (initialDownload (Some (readyVideo 100)))) =
     Some \<lparr>duration = 100, currentTime = 10, paused = True, muted = False, readyState = 4\<rparr>"
  by (simp add: run_eval)

end
